theory Spec2Isabelle
  imports Main "HOL-Library.Word"
begin

section \<open>Python values used by the service\<close>

text \<open>
  A Python \<^verbatim>\<open>str\<close> is a sequence of Unicode code points, a \<^verbatim>\<open>bytes\<close> object a sequence of
  octets. String literals of the source are written with \<open>lit\<close>, which maps every
  character of an Isabelle string to its code point.
\<close>

type_synonym pystr = "nat list"

type_synonym bytes = "8 word list"

definition lit :: "string \<Rightarrow> pystr" where
  "lit s = map of_char s"

text \<open>
  \<^verbatim>\<open>str.strip()\<close> without argument removes leading and trailing characters for which
  CPython's \<^verbatim>\<open>Py_UNICODE_ISSPACE\<close> holds: the ASCII ones (tab to carriage return, the four
  separators 0x1C to 0x1F, space) and the Unicode ones (NEL, NBSP, Ogham space, the
  U+2000 block, line and paragraph separator, narrow NBSP, medium mathematical space,
  ideographic space).
\<close>

definition py_isspace :: "nat \<Rightarrow> bool" where
  "py_isspace c =
     ((0x09 \<le> c \<and> c \<le> 0x0D) \<or> (0x1C \<le> c \<and> c \<le> 0x20) \<or> c = 0x85 \<or> c = 0xA0
      \<or> c = 0x1680 \<or> (0x2000 \<le> c \<and> c \<le> 0x200A) \<or> c = 0x2028 \<or> c = 0x2029
      \<or> c = 0x202F \<or> c = 0x205F \<or> c = 0x3000)"

definition strip :: "pystr \<Rightarrow> pystr" where
  "strip s = rev (dropWhile py_isspace (rev (dropWhile py_isspace s)))"

text \<open>\<^verbatim>\<open>sep.join(xs)\<close> on a list of strings.\<close>

fun join :: "pystr \<Rightarrow> pystr list \<Rightarrow> pystr" where
  "join sep [] = []"
| "join sep [x] = x"
| "join sep (x # y # ys) = x @ sep @ join sep (y # ys)"

text \<open>\<^verbatim>\<open>s.endswith(suffix)\<close> and \<^verbatim>\<open>s.replace(old, new)\<close> for one-character \<^verbatim>\<open>old\<close>.\<close>

definition endswith :: "pystr \<Rightarrow> pystr \<Rightarrow> bool" where
  "endswith s suf = (length suf \<le> length s \<and> drop (length s - length suf) s = suf)"

definition replace_char :: "nat \<Rightarrow> pystr \<Rightarrow> pystr \<Rightarrow> pystr" where
  "replace_char old new s = concat (map (\<lambda>c. if c = old then new else [c]) s)"

text \<open>Decimal rendering of integers, as \<^verbatim>\<open>str(n)\<close> and f-strings produce it.\<close>

function str_nat :: "nat \<Rightarrow> pystr" where
  "str_nat n = (if n < 10 then [48 + n] else str_nat (n div 10) @ [48 + n mod 10])"
  by pat_completeness auto
termination
  by (relation "measure id") auto

declare str_nat.simps [simp del]

definition str_int :: "int \<Rightarrow> pystr" where
  "str_int i = (if i < 0 then 45 # str_nat (nat (- i)) else str_nat (nat i))"

subsection \<open>Exceptions\<close>

text \<open>
  The exceptions the handlers of the service tell apart: FastAPI's \<^verbatim>\<open>HTTPException\<close> (a
  subclass of \<^verbatim>\<open>Exception\<close>, with status code and detail), \<^verbatim>\<open>RuntimeError\<close> with its
  message, and any other subclass of \<^verbatim>\<open>Exception\<close> with the text \<^verbatim>\<open>str(e)\<close> gives.
  \<^verbatim>\<open>str\<close> of an \<^verbatim>\<open>HTTPException\<close> is Starlette's "status: detail".
\<close>

datatype exn =
    HTTPException (status_code: nat) (detail: pystr)
  | RuntimeError pystr
  | PyException pystr

fun str_exn :: "exn \<Rightarrow> pystr" where
  "str_exn (HTTPException code d) = str_nat code @ lit '': '' @ d"
| "str_exn (RuntimeError m) = m"
| "str_exn (PyException m) = m"

section \<open>Text codecs\<close>

text \<open>
  \<^verbatim>\<open>bytes.decode(encoding)\<close> in strict mode, for the four codec names of the source; \<open>None\<close>
  stands for \<^verbatim>\<open>UnicodeDecodeError\<close>. \<^verbatim>\<open>iso-8859-1\<close> is an alias of \<^verbatim>\<open>latin-1\<close>.
\<close>

datatype encoding = UTF_8 | LATIN_1 | CP1252 | ISO_8859_1

definition continuation :: "nat \<Rightarrow> bool" where
  "continuation b = (0x80 \<le> b \<and> b \<le> 0xBF)"

text \<open>
  UTF-8: shortest form only, no surrogates, nothing above U+10FFFF; a truncated or
  malformed sequence is an error.
\<close>

fun utf8_decode :: "nat list \<Rightarrow> pystr option" where
  "utf8_decode [] = Some []"
| "utf8_decode (b0 # bs) =
     (if b0 < 0x80 then map_option (Cons b0) (utf8_decode bs)
      else if 0xC2 \<le> b0 \<and> b0 \<le> 0xDF then
        (case bs of
           b1 # r \<Rightarrow>
             if continuation b1
             then map_option (Cons ((b0 - 0xC0) * 64 + (b1 - 0x80))) (utf8_decode r)
             else None
         | _ \<Rightarrow> None)
      else if 0xE0 \<le> b0 \<and> b0 \<le> 0xEF then
        (case bs of
           b1 # b2 # r \<Rightarrow>
             if continuation b1 \<and> continuation b2
                \<and> (if b0 = 0xE0 then 0xA0 \<le> b1 else True)
                \<and> (if b0 = 0xED then b1 \<le> 0x9F else True)
             then map_option
                    (Cons ((b0 - 0xE0) * 4096 + (b1 - 0x80) * 64 + (b2 - 0x80)))
                    (utf8_decode r)
             else None
         | _ \<Rightarrow> None)
      else if 0xF0 \<le> b0 \<and> b0 \<le> 0xF4 then
        (case bs of
           b1 # b2 # b3 # r \<Rightarrow>
             if continuation b1 \<and> continuation b2 \<and> continuation b3
                \<and> (if b0 = 0xF0 then 0x90 \<le> b1 else True)
                \<and> (if b0 = 0xF4 then b1 \<le> 0x8F else True)
             then map_option
                    (Cons ((b0 - 0xF0) * 262144 + (b1 - 0x80) * 4096
                           + (b2 - 0x80) * 64 + (b3 - 0x80)))
                    (utf8_decode r)
             else None
         | _ \<Rightarrow> None)
      else None)"

text \<open>
  Windows-1252: the bytes 0x80 to 0x9F follow the code page's table, in which 0x81,
  0x8D, 0x8F, 0x90 and 0x9D are undefined; every other byte is its own code point.
\<close>

definition cp1252_table :: "nat option list" where
  "cp1252_table =
     [Some 0x20AC, None, Some 0x201A, Some 0x0192, Some 0x201E, Some 0x2026, Some 0x2020,
      Some 0x2021, Some 0x02C6, Some 0x2030, Some 0x0160, Some 0x2039, Some 0x0152, None,
      Some 0x017D, None, None, Some 0x2018, Some 0x2019, Some 0x201C, Some 0x201D,
      Some 0x2022, Some 0x2013, Some 0x2014, Some 0x02DC, Some 0x2122, Some 0x0161,
      Some 0x203A, Some 0x0153, None, Some 0x017E, Some 0x0178]"

definition cp1252_char :: "nat \<Rightarrow> nat option" where
  "cp1252_char b = (if 0x80 \<le> b \<and> b < 0xA0 then cp1252_table ! (b - 0x80) else Some b)"

fun cp1252_decode :: "nat list \<Rightarrow> pystr option" where
  "cp1252_decode [] = Some []"
| "cp1252_decode (b # bs) =
     (case cp1252_char b of
        None \<Rightarrow> None
      | Some c \<Rightarrow> map_option (Cons c) (cp1252_decode bs))"

fun decode :: "encoding \<Rightarrow> bytes \<Rightarrow> pystr option" where
  "decode UTF_8 content = utf8_decode (map unat content)"
| "decode LATIN_1 content = Some (map unat content)"
| "decode CP1252 content = cp1252_decode (map unat content)"
| "decode ISO_8859_1 content = Some (map unat content)"

section \<open>FileService: reading a text file\<close>

text \<open>
  \<^verbatim>\<open>FileService._read_txt_file\<close>: the loop over the encodings. A decode that raises
  \<^verbatim>\<open>UnicodeDecodeError\<close> and a decode whose text strips to nothing both go on to the next
  encoding; after the last one the function raises \<^verbatim>\<open>HTTPException(400)\<close>.
\<close>

definition encodings :: "encoding list" where
  "encodings = [UTF_8, LATIN_1, CP1252, ISO_8859_1]"

fun try_encodings :: "encoding list \<Rightarrow> bytes \<Rightarrow> exn + pystr" where
  "try_encodings [] content = Inl (HTTPException 400 (lit ''Could not decode text file''))"
| "try_encodings (enc # rest) content =
     (case decode enc content of
        None \<Rightarrow> try_encodings rest content
      | Some text \<Rightarrow> if strip text \<noteq> [] then Inr text else try_encodings rest content)"

definition read_txt_file :: "bytes \<Rightarrow> exn + pystr" where
  "read_txt_file content = try_encodings encodings content"

section \<open>External collaborators\<close>

text \<open>
  What the service calls but does not implement is a parameter of the model: Python's
  \<^verbatim>\<open>str.lower\<close> (full Unicode case mapping) and \<^verbatim>\<open>json.loads\<close>, the document parsers
  (python-docx: the paragraph texts of a document; PyPDF2: the pages of a reader, each
  given by what its \<^verbatim>\<open>extract_text()\<close> returns or raises), the generative-AI client and the
  Pydantic validation of its parsed answer. A raised exception is an \<open>Inl\<close>.
\<close>

datatype json =
    JNull
  | JBool bool
  | JInt int
  | JFloat pystr
  | JString pystr
  | JArray "json list"
  | JObject "(pystr \<times> json) list"

datatype api_failure =
    APIError (code: int) (message: pystr)
  | SDKException pystr

datatype QuestionType = MCQ | TrueFalse | ShortAnswer | Essay

datatype Difficulty = Easy | Medium | Hard | Mixed

text \<open>
  The four question models. \<^verbatim>\<open>QuestionBase.difficulty\<close> is a \<^verbatim>\<open>Literal\<close> of the first three
  difficulty members; the \<^verbatim>\<open>type\<close> field of each model is the \<^verbatim>\<open>Literal\<close> of its own
  member, so it is given by the constructor (\<open>qtype\<close> below).
\<close>

datatype Question =
    MultipleChoiceQuestion (qid: int) (qdifficulty: Difficulty) (question: pystr)
      (options: "pystr list") (correct_answer: pystr) (explanation: pystr)
  | TrueFalseQuestion (qid: int) (qdifficulty: Difficulty) (question: pystr)
      (correct_answer: pystr) (explanation: pystr)
  | ShortAnswerQuestion (qid: int) (qdifficulty: Difficulty) (question: pystr)
      (sample_answer: pystr)
  | EssayQuestion (qid: int) (qdifficulty: Difficulty) (question: pystr)
      (guidelines: pystr)

record Exam =
  exam_id :: "int option"
  exam_title :: pystr
  total_questions :: int
  exam_difficulty :: pystr
  estimated_completion_minutes :: int
  exam_question_types :: "QuestionType list"
  questions :: "Question list"

text \<open>
  \<open>generate_content\<close> returns the \<^verbatim>\<open>parsed\<close> attribute of the response: \<open>None\<close> when it
  is \<^verbatim>\<open>None\<close> or otherwise falsy, \<open>Some p\<close> for a truthy object \<open>p\<close>.
\<close>

record 'p env =
  str_lower :: "pystr \<Rightarrow> pystr"
  json_loads :: "pystr \<Rightarrow> exn + json"
  docx_paragraphs :: "bytes \<Rightarrow> exn + pystr list"
  pdf_pages :: "bytes \<Rightarrow> exn + (exn + pystr) list"
  generate_content :: "pystr \<Rightarrow> api_failure + 'p option"
  model_validate :: "'p \<Rightarrow> exn + Exam"

section \<open>FileService: DOCX, PDF and the dispatch on the extension\<close>

text \<open>
  \<^verbatim>\<open>FileService._read_docx_file\<close>. The temporary file the parser reads from is written and
  unlinked inside the function and is not part of the model.
\<close>

definition read_docx_file :: "'p env \<Rightarrow> bytes \<Rightarrow> exn + pystr" where
  "read_docx_file env content =
     (case docx_paragraphs env content of
        Inl e \<Rightarrow> Inl e
      | Inr paragraphs \<Rightarrow>
          (let text_content = join (lit ''\<newline>'') paragraphs in
           if strip text_content = []
           then Inl (HTTPException 400 (lit ''No text content found in DOCX file''))
           else Inr text_content))"

text \<open>
  \<^verbatim>\<open>FileService._read_pdf_file\<close>: the loop over the pages appends every non-empty page text;
  \<^verbatim>\<open>except HTTPException: raise\<close> lets the function's own errors through and every other
  exception becomes a 500.
\<close>

fun extract_pages :: "pystr list \<Rightarrow> (exn + pystr) list \<Rightarrow> exn + pystr list" where
  "extract_pages text_pages [] = Inr text_pages"
| "extract_pages text_pages (page # rest) =
     (case page of
        Inl e \<Rightarrow> Inl e
      | Inr page_text \<Rightarrow>
          extract_pages (if page_text \<noteq> [] then text_pages @ [page_text] else text_pages) rest)"

definition read_pdf_pages :: "(exn + pystr) list \<Rightarrow> exn + pystr" where
  "read_pdf_pages pages =
     (if length pages = 0 then Inl (HTTPException 400 (lit ''PDF file has no pages''))
      else
        (case extract_pages [] pages of
           Inl e \<Rightarrow> Inl e
         | Inr text_pages \<Rightarrow>
             (let full_text = join (lit ''\<newline>'') text_pages in
              if strip full_text = []
              then Inl (HTTPException 400
                     (lit ''No text content found in PDF. File might be image-based or encrypted.''))
              else Inr full_text)))"

fun pdf_handler :: "exn \<Rightarrow> exn" where
  "pdf_handler (HTTPException c d) = HTTPException c d"
| "pdf_handler e = HTTPException 500 (lit ''Failed to process PDF file: '' @ str_exn e)"

definition read_pdf_file :: "'p env \<Rightarrow> bytes \<Rightarrow> exn + pystr" where
  "read_pdf_file env content =
     (case (case pdf_pages env content of Inl e \<Rightarrow> Inl e | Inr pages \<Rightarrow> read_pdf_pages pages) of
        Inl e \<Rightarrow> Inl (pdf_handler e)
      | Inr full_text \<Rightarrow> Inr full_text)"

record UploadFile =
  filename :: "pystr option"
  file_bytes :: bytes

text \<open>
  \<^verbatim>\<open>FileService.read_file\<close>. The class has no \<^verbatim>\<open>_read_doc_file\<close>, so the \<^verbatim>\<open>doc\<close> branch
  raises \<^verbatim>\<open>AttributeError\<close>, which the handler turns into a 500 like any exception that is
  not an \<^verbatim>\<open>HTTPException\<close>.
\<close>

definition extension_of :: "pystr \<Rightarrow> pystr" where
  "extension_of name = rev (takeWhile (\<lambda>c. c \<noteq> 46) (rev name))"

fun read_file_handler :: "exn \<Rightarrow> exn" where
  "read_file_handler (HTTPException c d) = HTTPException c d"
| "read_file_handler e = HTTPException 500 (lit ''Error processing file: '' @ str_exn e)"

definition read_file_dispatch :: "'p env \<Rightarrow> pystr \<Rightarrow> bytes \<Rightarrow> exn + pystr" where
  "read_file_dispatch env extension content =
     (if extension = lit ''txt'' then read_txt_file content
      else if extension = lit ''docx'' then read_docx_file env content
      else if extension = lit ''doc'' then
        Inl (PyException (lit ''type object 'FileService' has no attribute '_read_doc_file'' @ [39]))
      else if extension = lit ''pdf'' then read_pdf_file env content
      else Inl (HTTPException 400
             (lit ''Unsupported file format: '' @ extension @ lit ''. Supported: txt, docx, doc, pdf'')))"

definition read_file :: "'p env \<Rightarrow> UploadFile \<Rightarrow> exn + pystr" where
  "read_file env file =
     (case filename file of
        None \<Rightarrow> Inl (HTTPException 400 (lit ''No file provided''))
      | Some name \<Rightarrow>
          if name = [] then Inl (HTTPException 400 (lit ''No file provided''))
          else
            (let lowered = str_lower env name in
             if 46 \<notin> set lowered then Inl (HTTPException 400 (lit ''File must have an extension''))
             else
               (case read_file_dispatch env (extension_of lowered) (file_bytes file) of
                  Inl e \<Rightarrow> Inl (read_file_handler e)
                | Inr text \<Rightarrow> Inr text)))"

section \<open>FileService: rendering an exam\<close>

fun QuestionType_value :: "QuestionType \<Rightarrow> pystr" where
  "QuestionType_value MCQ = lit ''Multiple Choice''"
| "QuestionType_value TrueFalse = lit ''True/False''"
| "QuestionType_value ShortAnswer = lit ''Short Answer''"
| "QuestionType_value Essay = lit ''Essay''"

fun Difficulty_value :: "Difficulty \<Rightarrow> pystr" where
  "Difficulty_value Easy = lit ''Easy''"
| "Difficulty_value Medium = lit ''Medium''"
| "Difficulty_value Hard = lit ''Hard''"
| "Difficulty_value Mixed = lit ''Mixed''"

fun qtype :: "Question \<Rightarrow> QuestionType" where
  "qtype (MultipleChoiceQuestion _ _ _ _ _ _) = MCQ"
| "qtype (TrueFalseQuestion _ _ _ _ _) = TrueFalse"
| "qtype (ShortAnswerQuestion _ _ _ _) = ShortAnswer"
| "qtype (EssayQuestion _ _ _ _) = Essay"

text \<open>
  \<^verbatim>\<open>chr(i)\<close> raises \<^verbatim>\<open>ValueError\<close> outside the range of code points. In the header of a
  question the two enum members are rendered by their values, as Python before 3.11
  formats an enum mixed with \<^verbatim>\<open>str\<close>; from 3.11 on the f-string shows the qualified member
  name instead. The comparisons \<^verbatim>\<open>q.type == "..."\<close> and the \<^verbatim>\<open>join\<close> of the exam's question
  types use the values in every version, and no property below depends on how the header
  renders the enums.
\<close>

definition py_chr :: "nat \<Rightarrow> exn + pystr" where
  "py_chr i =
     (if i < 0x110000 then Inr [i]
      else Inl (PyException (lit ''chr() arg not in range(0x110000)'')))"

text \<open>The loop \<^verbatim>\<open>for i, option in enumerate(q.options)\<close>, from index \<open>i\<close> on.\<close>

fun option_lines :: "nat \<Rightarrow> pystr list \<Rightarrow> exn + pystr" where
  "option_lines i [] = Inr []"
| "option_lines i (option # rest) =
     (case py_chr (65 + i) of
        Inl e \<Rightarrow> Inl e
      | Inr letter \<Rightarrow>
          (case option_lines (Suc i) rest of
             Inl e \<Rightarrow> Inl e
           | Inr others \<Rightarrow> Inr (letter @ lit ''. '' @ option @ lit ''\<newline>'' @ others)))"

definition question_header :: "Question \<Rightarrow> pystr" where
  "question_header q =
     lit ''Question '' @ str_int (qid q) @ lit '' ['' @ QuestionType_value (qtype q)
     @ lit '' - '' @ Difficulty_value (qdifficulty q) @ lit '']\<newline>'' @ question q
     @ lit ''\<newline>\<newline>''"

definition question_block :: "Question \<Rightarrow> exn + pystr" where
  "question_block q =
     (case (if QuestionType_value (qtype q) = lit ''Multiple Choice''
            then option_lines 0 (options q) else Inr []) of
        Inl e \<Rightarrow> Inl e
      | Inr option_text \<Rightarrow>
          Inr (question_header q @ option_text
               @ (if QuestionType_value (qtype q) = lit ''Essay''
                  then lit ''Guidelines: '' @ guidelines q @ lit ''\<newline>'' else [])
               @ lit ''\<newline>'' @ concat (replicate 40 (lit ''-'')) @ lit ''\<newline>\<newline>''))"

fun question_blocks :: "Question list \<Rightarrow> exn + pystr" where
  "question_blocks [] = Inr []"
| "question_blocks (q # qs) =
     (case question_block q of
        Inl e \<Rightarrow> Inl e
      | Inr block \<Rightarrow>
          (case question_blocks qs of
             Inl e \<Rightarrow> Inl e
           | Inr others \<Rightarrow> Inr (block @ others)))"

definition answer_key_lines :: "Question \<Rightarrow> pystr" where
  "answer_key_lines q =
     (if QuestionType_value (qtype q) = lit ''Multiple Choice''
         \<or> QuestionType_value (qtype q) = lit ''True/False''
      then lit ''Question '' @ str_int (qid q) @ lit '': '' @ correct_answer q @ lit ''\<newline>''
      else [])
     @ (if QuestionType_value (qtype q) = lit ''Short Answer''
        then lit ''Question '' @ str_int (qid q) @ lit '': [Sample Answer] '' @ sample_answer q
             @ lit ''\<newline>''
        else [])
     @ (if QuestionType_value (qtype q) = lit ''Essay''
        then lit ''Question '' @ str_int (qid q) @ lit '': Not Applicable\<newline>''
        else [])"

definition exam_header :: "Exam \<Rightarrow> pystr" where
  "exam_header exam =
     lit ''Exam Title: '' @ exam_title exam @ lit ''\<newline>''
     @ lit ''Questions: '' @ str_int (total_questions exam) @ lit ''\<newline>''
     @ lit ''Difficulty: '' @ exam_difficulty exam @ lit ''\<newline>''
     @ lit ''Estimated Time: '' @ str_int (estimated_completion_minutes exam)
     @ lit '' minutes\<newline>''
     @ lit ''Types: '' @ join (lit '', '') (map QuestionType_value (exam_question_types exam))
     @ lit ''\<newline>''
     @ lit ''\<newline>'' @ concat (replicate 40 (lit ''='')) @ lit ''\<newline>\<newline>''"

definition answer_key_title :: pystr where
  "answer_key_title =
     lit ''\<newline>ANSWER KEY\<newline>'' @ concat (replicate 40 (lit ''='')) @ lit ''\<newline>\<newline>''"

text \<open>
  \<^verbatim>\<open>str.encode("latin-1")\<close> in strict mode. The first character above U+00FF raises
  \<^verbatim>\<open>UnicodeEncodeError\<close>, whose text names that character when it stands alone and the
  positions of the run of such characters otherwise.
\<close>

definition hex_digit :: "nat \<Rightarrow> nat" where
  "hex_digit d = (if d < 10 then 48 + d else 87 + d)"

fun hex_pad :: "nat \<Rightarrow> nat \<Rightarrow> pystr" where
  "hex_pad 0 n = []"
| "hex_pad (Suc width) n = hex_pad width (n div 16) @ [hex_digit (n mod 16)]"

definition escaped_char :: "nat \<Rightarrow> pystr" where
  "escaped_char c =
     (if c \<le> 0xFF then [92] @ lit ''x'' @ hex_pad 2 c
      else if c \<le> 0xFFFF then [92] @ lit ''u'' @ hex_pad 4 c
      else [92] @ lit ''U'' @ hex_pad 8 c)"

definition encode_error_text :: "pystr \<Rightarrow> nat \<Rightarrow> nat \<Rightarrow> pystr" where
  "encode_error_text s first beyond =
     (if beyond = first + 1
      then [39] @ lit ''latin-1'' @ [39] @ lit '' codec can't encode character '' @ [39]
           @ escaped_char (s ! first) @ [39] @ lit '' in position '' @ str_nat first
           @ lit '': ordinal not in range(256)''
      else [39] @ lit ''latin-1'' @ [39] @ lit '' codec can't encode characters in position ''
           @ str_nat first @ lit ''-'' @ str_nat (beyond - 1)
           @ lit '': ordinal not in range(256)'')"

definition encode_latin1 :: "pystr \<Rightarrow> exn + bytes" where
  "encode_latin1 s =
     (let first = length (takeWhile (\<lambda>c. c < 256) s) in
      if first = length s then Inr (map of_nat s)
      else
        (let beyond = first + length (takeWhile (\<lambda>c. 256 \<le> c) (drop first s)) in
         Inl (PyException (encode_error_text s first beyond))))"

text \<open>
  The response object, by the arguments the function gives to \<^verbatim>\<open>StreamingResponse\<close>: the
  text in the buffer, the media type (\<^verbatim>\<open>mime_map.get\<close> is \<^verbatim>\<open>None\<close> for an unknown format)
  and the headers. The constructor encodes the header values as latin-1, so it raises
  \<^verbatim>\<open>UnicodeEncodeError\<close> when the file name, made of the title of the exam and the file
  type, has a character outside latin-1.
\<close>

record StreamingResponse =
  body :: pystr
  media_type :: "pystr option"
  headers :: "(pystr \<times> pystr) list"

definition mime_map :: "(pystr \<times> pystr) list" where
  "mime_map = [(lit ''txt'', lit ''text/plain''), (lit ''doc'', lit ''application/msword'')]"

definition create_file_stream :: "Exam \<Rightarrow> pystr \<Rightarrow> exn + StreamingResponse" where
  "create_file_stream exam file_type =
     (case question_blocks (questions exam) of
        Inl e \<Rightarrow> Inl e
      | Inr blocks \<Rightarrow>
          (let disposition =
                 lit ''attachment; filename=''
                 @ replace_char 32 (lit ''_'') (exam_title exam) @ lit ''.'' @ file_type in
           case encode_latin1 disposition of
             Inl e \<Rightarrow> Inl e
           | Inr encoded \<Rightarrow>
               Inr \<lparr> body = exam_header exam @ blocks @ answer_key_title
                             @ concat (map answer_key_lines (questions exam)),
                     media_type = map_of mime_map file_type,
                     headers = [(lit ''Content-Disposition'', disposition)] \<rparr>))"

text \<open>The download endpoint.\<close>

definition OutputFileType_values :: "pystr list" where
  "OutputFileType_values = [lit ''doc'', lit ''txt'']"

definition download_exam :: "Exam \<Rightarrow> pystr \<Rightarrow> exn + StreamingResponse" where
  "download_exam exam file_type =
     (if file_type \<notin> set OutputFileType_values
      then Inl (HTTPException 400 (lit ''Invalid file type''))
      else create_file_stream exam file_type)"

section \<open>GeminiService\<close>

text \<open>
  \<^verbatim>\<open>build_prompt\<close> joins the parsed \<^verbatim>\<open>question_types\<close>, whatever JSON value the client sent:
  a list, a string (iterated by character) or an object (iterated by key) can be joined
  when every item is a string; anything else raises \<^verbatim>\<open>TypeError\<close>.
\<close>

fun json_type_name :: "json \<Rightarrow> pystr" where
  "json_type_name JNull = lit ''NoneType''"
| "json_type_name (JBool _) = lit ''bool''"
| "json_type_name (JInt _) = lit ''int''"
| "json_type_name (JFloat _) = lit ''float''"
| "json_type_name (JString _) = lit ''str''"
| "json_type_name (JArray _) = lit ''list''"
| "json_type_name (JObject _) = lit ''dict''"

fun py_iter :: "json \<Rightarrow> exn + json list" where
  "py_iter (JArray items) = Inr items"
| "py_iter (JString s) = Inr (map (\<lambda>c. JString [c]) s)"
| "py_iter (JObject members) = Inr (map (\<lambda>member. JString (fst member)) members)"
| "py_iter v = Inl (PyException ([39] @ json_type_name v @ [39] @ lit '' object is not iterable''))"

fun join_items :: "nat \<Rightarrow> json list \<Rightarrow> exn + pystr list" where
  "join_items i [] = Inr []"
| "join_items i (JString s # rest) =
     (case join_items (Suc i) rest of Inl e \<Rightarrow> Inl e | Inr ss \<Rightarrow> Inr (s # ss))"
| "join_items i (v # rest) =
     Inl (PyException (lit ''sequence item '' @ str_nat i @ lit '': expected str instance, ''
                       @ json_type_name v @ lit '' found''))"

definition build_prompt :: "int \<Rightarrow> pystr \<Rightarrow> json \<Rightarrow> pystr \<Rightarrow> pystr \<Rightarrow> exn + pystr" where
  "build_prompt num_questions difficulty question_types exam_guide additional_info =
     (case (case py_iter question_types of Inl e \<Rightarrow> Inl e | Inr items \<Rightarrow> join_items 0 items) of
        Inl e \<Rightarrow> Inl e
      | Inr labels \<Rightarrow>
          Inr (lit ''Given the following exam guide content, generate mock exam questions (see specifications below) with answers. \<newline>''
               @ lit ''- total number of questions: '' @ str_int num_questions @ lit '' \<newline>''
               @ lit ''- difficulty level: '' @ difficulty @ lit '' \<newline>''
               @ lit ''- question types: '' @ join (lit '', '') labels @ lit '' \<newline>''
               @ lit ''- output format: JSON \<newline>\<newline>''
               @ lit ''- exam guide: '' @ exam_guide @ lit '' \<newline>''
               @ lit ''- additional information: '' @ additional_info @ lit '' \<newline>\<newline>''
               @ lit ''Please ensure the output is a valid JSON object strictly conforming to the provided schema.''))"

text \<open>
  The events a request causes outside the process: a read of the uploaded file and a call
  of the generative-AI service with a prompt.
\<close>

datatype event = FileRead | AICall pystr

text \<open>
  \<^verbatim>\<open>GeminiService.generate_exam\<close>: every exception, of the prompt builder or of the client,
  leaves the method as a \<^verbatim>\<open>RuntimeError\<close>.
\<close>

definition gemini_generate_exam ::
  "'p env \<Rightarrow> int \<Rightarrow> pystr \<Rightarrow> json \<Rightarrow> pystr \<Rightarrow> pystr \<Rightarrow> event list \<times> (exn + 'p option)" where
  "gemini_generate_exam env number_of_questions difficulty question_types exam_guide additional_info =
     (case build_prompt number_of_questions difficulty question_types exam_guide additional_info of
        Inl e \<Rightarrow>
          ([], Inl (RuntimeError
                 (lit ''An unexpected error occurred during Gemini API call: '' @ str_exn e)))
      | Inr prompt \<Rightarrow>
          ([AICall prompt],
           (case generate_content env prompt of
              Inl (APIError c m) \<Rightarrow>
                Inl (RuntimeError
                  (lit ''Gemini API error occurred (status '' @ str_int c @ lit ''): '' @ m))
            | Inl (SDKException m) \<Rightarrow>
                Inl (RuntimeError
                  (lit ''An unexpected error occurred during Gemini API call: '' @ m))
            | Inr parsed \<Rightarrow> Inr parsed)))"

section \<open>The generate endpoint\<close>

record request =
  num_questions :: int
  difficulty :: pystr
  question_types :: pystr
  exam_guide_content :: pystr
  additional_info :: pystr
  exam_guide_file :: "UploadFile option"

definition InputFileType_values :: "pystr list" where
  "InputFileType_values = [lit ''docx'', lit ''pdf'', lit ''txt'']"

text \<open>
  \<^verbatim>\<open>str\<close> of a list of strings, for strings that need no escaping (the extensions).
\<close>

definition repr_str_list :: "pystr list \<Rightarrow> pystr" where
  "repr_str_list xs = lit ''['' @ join (lit '', '') (map (\<lambda>x. [39] @ x @ [39]) xs) @ lit '']''"

text \<open>
  The part of \<^verbatim>\<open>generate_exam\<close> under \<^verbatim>\<open>if exam_guide_file:\<close>. Every exception of
  \<^verbatim>\<open>FileService.read_file\<close>, its \<^verbatim>\<open>HTTPException\<close>s included, is raised again as a 500.
\<close>

definition read_upload :: "'p env \<Rightarrow> UploadFile \<Rightarrow> event list \<times> (exn + pystr)" where
  "read_upload env file =
     (case filename file of
        None \<Rightarrow> ([], Inl (HTTPException 400 (lit ''File must have a filename with extension.'')))
      | Some name \<Rightarrow>
          if name = []
          then ([], Inl (HTTPException 400 (lit ''File must have a filename with extension.'')))
          else
            (let filename_lower = str_lower env name;
                 supported_extensions = InputFileType_values in
             if \<not> list_ex (\<lambda>ext. endswith filename_lower (lit ''.'' @ ext)) supported_extensions
             then ([], Inl (HTTPException 400
                         (lit ''Unsupported file type. Supported: ''
                          @ repr_str_list supported_extensions)))
             else
               ([FileRead],
                (case read_file env file of
                   Inl e \<Rightarrow> Inl (HTTPException 500 (lit ''Error reading file: '' @ str_exn e))
                 | Inr text \<Rightarrow> Inr text))))"

text \<open>
  The body of the \<^verbatim>\<open>try\<close> statement of \<^verbatim>\<open>generate_exam\<close>, in its two parts: up to the
  check of the final content (the parsed question types and the content are what the
  rest uses), and from the call of the Gemini service on.
\<close>

definition prepare_content :: "'p env \<Rightarrow> request \<Rightarrow> event list \<times> (exn + json \<times> pystr)" where
  "prepare_content env req =
     (case json_loads env (question_types req) of
        Inl e \<Rightarrow> ([], Inl e)
      | Inr parsed_question_types \<Rightarrow>
          if exam_guide_content req = [] \<and> exam_guide_file req = None
          then ([], Inl (HTTPException 400
                  (lit ''Either 'exam_guide_content' or 'exam_guide_file' must be provided.'')))
          else if exam_guide_content req \<noteq> [] \<and> exam_guide_file req \<noteq> None
          then ([], Inl (HTTPException 400
                  (lit ''Provide either 'exam_guide_content' OR 'exam_guide_file', not both.'')))
          else
            (case (case exam_guide_file req of
                     None \<Rightarrow> ([], Inr (exam_guide_content req))
                   | Some file \<Rightarrow> read_upload env file) of
               (events, Inl e) \<Rightarrow> (events, Inl e)
             | (events, Inr final_content) \<Rightarrow>
                 if final_content = [] \<or> strip final_content = []
                 then (events, Inl (HTTPException 400
                         (lit ''No content found to generate exam from.'')))
                 else (events, Inr (parsed_question_types, final_content))))"

definition generate_and_validate ::
  "'p env \<Rightarrow> request \<Rightarrow> json \<Rightarrow> pystr \<Rightarrow> event list \<times> (exn + Exam)" where
  "generate_and_validate env req parsed_question_types final_content =
     (case gemini_generate_exam env (num_questions req) (difficulty req)
             parsed_question_types final_content (additional_info req) of
        (calls, Inl e) \<Rightarrow> (calls, Inl e)
      | (calls, Inr None) \<Rightarrow>
          (calls, Inl (HTTPException 500
                    (lit ''Gemini API returned an empty or unparseable response.'')))
      | (calls, Inr (Some parsed)) \<Rightarrow> (calls, model_validate env parsed))"

definition generate_exam_try :: "'p env \<Rightarrow> request \<Rightarrow> event list \<times> (exn + Exam)" where
  "generate_exam_try env req =
     (case prepare_content env req of
        (events, Inl e) \<Rightarrow> (events, Inl e)
      | (events, Inr (parsed_question_types, final_content)) \<Rightarrow>
          (case generate_and_validate env req parsed_question_types final_content of
             (calls, outcome) \<Rightarrow> (events @ calls, outcome)))"

text \<open>
  The two handlers of the \<^verbatim>\<open>try\<close> statement: \<^verbatim>\<open>except RuntimeError\<close>, then
  \<^verbatim>\<open>except Exception\<close>, which is the one an \<^verbatim>\<open>HTTPException\<close> raised in the body reaches.
\<close>

fun generate_exam_handler :: "exn \<Rightarrow> exn" where
  "generate_exam_handler (RuntimeError m) =
     HTTPException 500 (lit ''Error generating exam from Gemini: '' @ m)"
| "generate_exam_handler e =
     HTTPException 500
       (lit ''An unexpected error occurred while processing the request: '' @ str_exn e)"

definition generate_exam :: "'p env \<Rightarrow> request \<Rightarrow> event list \<times> (exn + Exam)" where
  "generate_exam env req =
     (case generate_exam_try env req of
        (events, Inl e) \<Rightarrow> (events, Inl (generate_exam_handler e))
      | (events, Inr exam) \<Rightarrow> (events, Inr exam))"

text \<open>
  The status the client sees: 200 with the exam, the status of a raised
  \<^verbatim>\<open>HTTPException\<close>, and the framework's 500 for any other exception.
\<close>

text \<open>
  FastAPI validates the form before it calls the function: a required field
  (\<^verbatim>\<open>Form(...)\<close>) that is missing or empty is answered with status 422 and the function is
  not entered. The request record holds the fields as the function receives them, so the
  function runs on the requests whose required text fields are not empty.
\<close>

definition required_fields_present :: "request \<Rightarrow> bool" where
  "required_fields_present req = (difficulty req \<noteq> [] \<and> question_types req \<noteq> [])"

definition client_status :: "event list \<times> (exn + 'a) \<Rightarrow> nat" where
  "client_status r =
     (case snd r of
        Inr _ \<Rightarrow> 200
      | Inl (HTTPException c _) \<Rightarrow> c
      | Inl _ \<Rightarrow> 500)"

definition is_client_error :: "nat \<Rightarrow> bool" where
  "is_client_error c = (400 \<le> c \<and> c < 500)"

section \<open>A concrete environment for examples\<close>

text \<open>
  The collaborators at the inputs the examples use: file names in ASCII, for which
  \<^verbatim>\<open>str.lower\<close> maps \<open>A\<close> to \<open>Z\<close> only; the question types \<^verbatim>\<open>["Essay"]\<close>, with every other
  text of the examples not being JSON; a DOCX without paragraphs, a PDF without pages
  and an AI answer without parsed content unless an example sets them.
\<close>

definition ascii_lower :: "pystr \<Rightarrow> pystr" where
  "ascii_lower s = map (\<lambda>c. if 65 \<le> c \<and> c \<le> 90 then c + 32 else c) s"

definition example_env :: "Exam env" where
  \<open>example_env =
     \<lparr> str_lower = ascii_lower,
       json_loads = (\<lambda>s. if s = lit ''["Essay"]'' then Inr (JArray [JString (lit ''Essay'')])
                         else Inl (PyException (lit ''Expecting value: line 1 column 1 (char 0)''))),
       docx_paragraphs = (\<lambda>content. Inr []),
       pdf_pages = (\<lambda>content. Inr []),
       generate_content = (\<lambda>prompt. Inr None),
       model_validate = (\<lambda>parsed. Inr parsed) \<rparr>\<close>

definition example_request :: request where
  \<open>example_request =
     \<lparr> num_questions = 1, difficulty = lit ''Easy'', question_types = lit ''["Essay"]'',
       exam_guide_content = [], additional_info = [], exam_guide_file = None \<rparr>\<close>

section \<open>Notions of the specification\<close>

text \<open>
  A decode result is usable when the decode succeeded and its text is not made of
  whitespace only.
\<close>

definition usable :: "pystr option \<Rightarrow> bool" where
  "usable r = (case r of None \<Rightarrow> False | Some text \<Rightarrow> \<not> list_all py_isspace text)"

text \<open>
  The option lines of a multiple-choice question: one line per option, in the order of
  the options, each labelled with the letter at the option's zero-based index.
\<close>

definition option_letters :: pystr where
  "option_letters = lit ''ABCDEFGHIJKLMNOPQRSTUVWXYZ''"

definition labelled_options :: "pystr list \<Rightarrow> pystr" where
  "labelled_options opts =
     concat (map (\<lambda>(i, option). [option_letters ! i] @ lit ''. '' @ option @ lit ''\<newline>'')
               (enumerate 0 opts))"


text \<open>An exam with one question of each kind.\<close>

definition example_mcq :: Question where
  "example_mcq =
     MultipleChoiceQuestion 1 Easy (lit ''2 + 2 = ?'') [lit ''3'', lit ''4'', lit ''5'']
       (lit ''4'') (lit ''Addition.'')"

definition example_exam :: Exam where
  "example_exam =
     \<lparr> exam_id = None, exam_title = lit ''Mock Exam'', total_questions = 4,
       exam_difficulty = lit ''Mixed'', estimated_completion_minutes = 20,
       exam_question_types = [MCQ, TrueFalse, ShortAnswer, Essay],
       questions =
         [example_mcq,
          TrueFalseQuestion 2 Medium (lit ''Water is wet.'') (lit ''True'') (lit ''It is.''),
          ShortAnswerQuestion 3 Hard (lit ''Name a prime.'') (lit ''7''),
          EssayQuestion 4 Easy (lit ''Discuss.'') (lit ''One page.'')] \<rparr>"

text \<open>
  Two PDF uploads: one whose three pages extract to "Intro", nothing and "End", and one
  whose first and third page extract to a single space each.
\<close>

definition example_pdf :: bytes where
  "example_pdf = [0x25, 0x50, 0x44, 0x46]"

definition three_page_env :: "Exam env" where
  "three_page_env =
     example_env \<lparr> pdf_pages := (\<lambda>content. Inr [Inr (lit ''Intro''), Inr [], Inr (lit ''End'')]) \<rparr>"

definition blank_pages_env :: "Exam env" where
  "blank_pages_env =
     example_env \<lparr> pdf_pages := (\<lambda>content. Inr [Inr (lit '' ''), Inr [], Inr (lit '' '')]) \<rparr>"

text \<open>
  Requests: inline text only; inline text and a file; a text file holding one space; a
  DOCX and a PDF upload; a file with an unsupported extension; question types that are
  not JSON.
\<close>

definition inline_request :: request where
  "inline_request = example_request \<lparr> exam_guide_content := lit ''Photosynthesis'' \<rparr>"

definition both_request :: request where
  "both_request =
     example_request \<lparr> exam_guide_content := lit ''Photosynthesis'',
                       exam_guide_file :=
                         Some \<lparr> filename = Some (lit ''notes.txt''), file_bytes = [0x68, 0x69] \<rparr> \<rparr>"

definition blank_txt :: UploadFile where
  "blank_txt = \<lparr> filename = Some (lit ''blank.txt''), file_bytes = [0x20] \<rparr>"

definition blank_txt_request :: request where
  "blank_txt_request = example_request \<lparr> exam_guide_file := Some blank_txt \<rparr>"

definition docx_request :: request where
  "docx_request =
     example_request \<lparr> exam_guide_file :=
                         Some \<lparr> filename = Some (lit ''Guide.DOCX''), file_bytes = [0x50, 0x4B] \<rparr> \<rparr>"

definition pdf_request :: request where
  "pdf_request =
     example_request \<lparr> exam_guide_file :=
                         Some \<lparr> filename = Some (lit ''scan.pdf''), file_bytes = example_pdf \<rparr> \<rparr>"

definition xyz_request :: request where
  "xyz_request =
     example_request \<lparr> exam_guide_file :=
                         Some \<lparr> filename = Some (lit ''notes.xyz''), file_bytes = [0x68, 0x69] \<rparr> \<rparr>"

definition malformed_request :: request where
  "malformed_request = inline_request \<lparr> question_types := lit ''Essay'' \<rparr>"

section \<open>Properties of the text reader\<close>

lemma strip_eq_Nil_iff: "strip t = [] \<longleftrightarrow> list_all py_isspace t"
proof
  assume "strip t = []"
  then have a: "dropWhile py_isspace (rev (dropWhile py_isspace t)) = []"
    by (simp add: strip_def)
  show "list_all py_isspace t"
  proof (cases "dropWhile py_isspace t = []")
    case True
    then show ?thesis by (simp add: list_all_iff)
  next
    case False
    then have "\<not> py_isspace (hd (dropWhile py_isspace t))"
      by (rule hd_dropWhile)
    moreover have "hd (dropWhile py_isspace t) \<in> set (rev (dropWhile py_isspace t))"
      using False by simp
    ultimately show ?thesis using a by auto
  qed
next
  assume "list_all py_isspace t"
  then show "strip t = []"
    by (auto simp: strip_def list_all_iff dest: set_dropWhileD)
qed
lemma try_encodings_find:
  "try_encodings encs content =
     (case List.find usable (map (\<lambda>enc. decode enc content) encs) of
        Some (Some text) \<Rightarrow> Inr text
      | _ \<Rightarrow> Inl (HTTPException 400 (lit ''Could not decode text file'')))"
  by (induction encs) (auto simp: usable_def strip_eq_Nil_iff split: option.splits)

lemma try_encodings_fails_iff:
  "isl (try_encodings encs content) \<longleftrightarrow>
     (\<forall>enc\<in>set encs. \<forall>text. decode enc content = Some text \<longrightarrow> list_all py_isspace text)"
  by (induction encs) (auto simp: strip_eq_Nil_iff split: option.splits)

lemma try_encodings_error:
  "try_encodings encs content = Inl e \<Longrightarrow>
     e = HTTPException 400 (lit ''Could not decode text file'')"
  by (induction encs) (auto split: option.splits if_splits)

text \<open>
  C3: reading a text file tries the encodings utf-8, latin-1, cp1252, iso-8859-1 in this
  order and returns the text of the first one whose decode succeeds with content that is
  not whitespace only; when there is none, it fails with the decode error, a 400 with
  the detail "Could not decode text file".
\<close>

theorem read_txt_file_first_usable_decode:
  "encodings = [UTF_8, LATIN_1, CP1252, ISO_8859_1] \<and>
   read_txt_file content =
     (case List.find usable (map (\<lambda>enc. decode enc content) encodings) of
        Some (Some text) \<Rightarrow> Inr text
      | _ \<Rightarrow> Inl (HTTPException 400 (lit ''Could not decode text file'')))"
  unfolding read_txt_file_def by (simp add: try_encodings_find) (simp add: encodings_def)



theorem read_txt_file_first_usable_decode_witness:
  "map (\<lambda>enc. decode enc [0x85]) encodings = [None, Some [0x85], Some [0x2026], Some [0x85]]
   \<and> List.find usable [None, Some [0x85], Some [0x2026], Some [0x85]] = Some (Some [0x2026])
   \<and> read_txt_file [0x85] = Inr [0x2026]"
proof -
  have decodes: "map (\<lambda>enc. decode enc [0x85]) encodings
                   = [None, Some [0x85], Some [0x2026], Some [0x85]]"
    by (simp add: encodings_def continuation_def cp1252_char_def cp1252_table_def)
  have first: "List.find usable [None, Some [0x85], Some [0x2026], Some [0x85]]
                 = Some (Some [0x2026])"
    by (simp add: usable_def py_isspace_def)
  have "read_txt_file [0x85] = Inr [0x2026]"
    using read_txt_file_first_usable_decode [of "[0x85]"] by (simp only: decodes first option.case)
  with decodes first show ?thesis by simp
qed
text \<open>
  C10: reading a text file fails, and then with the decode error, exactly when every
  decode of the buffer that succeeds is whitespace only. latin-1 is among the encodings
  and decodes every buffer, so a buffer with a byte that is not a whitespace code point
  is always read successfully.
\<close>

theorem read_txt_file_fails_iff_blank:
  "(isl (read_txt_file content) \<longleftrightarrow>
      (\<forall>enc\<in>set encodings. \<forall>text. decode enc content = Some text \<longrightarrow> list_all py_isspace text))
   \<and> (isl (read_txt_file content) \<longrightarrow>
        read_txt_file content = Inl (HTTPException 400 (lit ''Could not decode text file'')))
   \<and> LATIN_1 \<in> set encodings
   \<and> decode LATIN_1 content = Some (map unat content)
   \<and> ((\<exists>c\<in>set (map unat content). \<not> py_isspace c) \<longrightarrow>
        (\<exists>text. read_txt_file content = Inr text))"
proof (intro conjI)
  show iff: "isl (read_txt_file content) \<longleftrightarrow>
      (\<forall>enc\<in>set encodings. \<forall>text. decode enc content = Some text \<longrightarrow> list_all py_isspace text)"
    unfolding read_txt_file_def by (rule try_encodings_fails_iff)
  show "isl (read_txt_file content) \<longrightarrow>
        read_txt_file content = Inl (HTTPException 400 (lit ''Could not decode text file''))"
    unfolding read_txt_file_def by (cases "try_encodings encodings content") (auto dest: try_encodings_error)
  show l: "LATIN_1 \<in> set encodings" by (simp add: encodings_def)
  show "decode LATIN_1 content = Some (map unat content)" by simp
  show "(\<exists>c\<in>set (map unat content). \<not> py_isspace c) \<longrightarrow> (\<exists>text. read_txt_file content = Inr text)"
  proof
    assume "\<exists>c\<in>set (map unat content). \<not> py_isspace c"
    then have "\<not> list_all py_isspace (map unat content)" by (auto simp: list_all_iff)
    with l have "\<not> isl (read_txt_file content)" unfolding iff by (metis decode.simps(2))
    then show "\<exists>text. read_txt_file content = Inr text"
      by (cases "read_txt_file content") auto
  qed
qed


theorem read_txt_file_fails_iff_blank_witness:
  "(\<exists>c\<in>set (map unat [0x68, 0x69 :: 8 word]). \<not> py_isspace c)
   \<and> (\<exists>text. read_txt_file [0x68, 0x69] = Inr text)
   \<and> map (\<lambda>enc. decode enc [0x0A]) encodings = [Some [10], Some [10], Some [10], Some [10]]
   \<and> list_all py_isspace [10]
   \<and> read_txt_file [0x0A] = Inl (HTTPException 400 (lit ''Could not decode text file''))"
proof -
  have visible: "\<exists>c\<in>set (map unat [0x68, 0x69 :: 8 word]). \<not> py_isspace c"
    by (simp add: py_isspace_def)
  have decodes: "map (\<lambda>enc. decode enc [0x0A]) encodings
                   = [Some [10], Some [10], Some [10], Some [10]]"
    by (simp add: encodings_def cp1252_char_def)
  have space: "list_all py_isspace [10]"
    by (simp add: py_isspace_def)
  have blank: "\<forall>enc\<in>set encodings. \<forall>text. decode enc [0x0A] = Some text \<longrightarrow> list_all py_isspace text"
    by (auto simp: encodings_def py_isspace_def cp1252_char_def)
  from visible have "\<exists>text. read_txt_file [0x68, 0x69] = Inr text"
    using read_txt_file_fails_iff_blank [of "[0x68, 0x69]"] by blast
  moreover from blank
  have "read_txt_file [0x0A] = Inl (HTTPException 400 (lit ''Could not decode text file''))"
    using read_txt_file_fails_iff_blank [of "[0x0A]"] by blast
  ultimately show ?thesis using visible decodes space by blast
qed

section \<open>Properties of the renderer\<close>

lemma lit_eq_iff: "lit a = lit b \<longleftrightarrow> a = b"
  by (simp add: lit_def inj_map_eq_map inj_on_def)

lemma QuestionType_value_MCQ: "QuestionType_value t = lit ''Multiple Choice'' \<longleftrightarrow> t = MCQ"
  by (cases t) (simp_all add: lit_def)
lemma QuestionType_value_TrueFalse: "QuestionType_value t = lit ''True/False'' \<longleftrightarrow> t = TrueFalse"
  by (cases t) (simp_all add: lit_def)
lemma QuestionType_value_ShortAnswer: "QuestionType_value t = lit ''Short Answer'' \<longleftrightarrow> t = ShortAnswer"
  by (cases t) (simp_all add: lit_def)
lemma QuestionType_value_Essay: "QuestionType_value t = lit ''Essay'' \<longleftrightarrow> t = Essay"
  by (cases t) (simp_all add: lit_def)

lemmas QuestionType_value_eq =
  lit_eq_iff QuestionType_value_MCQ QuestionType_value_TrueFalse QuestionType_value_ShortAnswer
  QuestionType_value_Essay

lemma option_letters_upt: "option_letters = map (\<lambda>k. 65 + k) [0..<26]"
  by (simp add: option_letters_def lit_def upt_rec)

lemma option_letters_nth: "k < 26 \<Longrightarrow> option_letters ! k = 65 + k"
  by (simp add: option_letters_upt del: upt_rec_numeral)

lemma option_lines_enumerate:
  "i + length opts \<le> 1114047 \<Longrightarrow>
   option_lines i opts =
     Inr (concat (map (\<lambda>(k, option). [65 + k] @ lit ''. '' @ option @ lit ''\<newline>'')
                    (enumerate i opts)))"
  by (induction opts arbitrary: i) (simp_all add: py_chr_def)


lemma option_lines_labelled:
  assumes "length opts \<le> 26"
  shows "option_lines 0 opts = Inr (labelled_options opts)"
proof -
  have same: "map (\<lambda>(k, option). [65 + k] @ lit ''. '' @ option @ lit ''\<newline>'') (enumerate 0 opts)
        = map (\<lambda>(k, option). [option_letters ! k] @ lit ''. '' @ option @ lit ''\<newline>'')
            (enumerate 0 opts)"
  proof (rule map_cong [OF refl])
    fix x
    assume "x \<in> set (enumerate 0 opts)"
    then have "fst x < 26" using assms by (auto simp: in_set_enumerate_eq)
    then show "(case x of (k, option) \<Rightarrow> [65 + k] @ lit ''. '' @ option @ lit ''\<newline>'')
             = (case x of (k, option) \<Rightarrow> [option_letters ! k] @ lit ''. '' @ option @ lit ''\<newline>'')"
      by (cases x) (simp add: option_letters_nth)
  qed
  have "option_lines 0 opts =
          Inr (concat (map (\<lambda>(k, option). [65 + k] @ lit ''. '' @ option @ lit ''\<newline>'')
                         (enumerate 0 opts)))"
    using assms by (intro option_lines_enumerate) simp
  then show ?thesis
    by (simp only: same labelled_options_def)
qed




lemma question_blocks_member:
  "question_blocks qs = Inr rendered \<Longrightarrow> q \<in> set qs \<Longrightarrow>
   \<exists>before block after. question_block q = Inr block \<and> rendered = before @ block @ after"
proof (induction qs arbitrary: rendered)
  case Nil
  then show ?case by simp
next
  case (Cons p ps)
  from Cons.prems(1) obtain block others where
    p: "question_block p = Inr block" and ps: "question_blocks ps = Inr others"
    and rendered: "rendered = block @ others"
    by (auto split: sum.splits)
  show ?case
  proof (cases "q = p")
    case True
    with p rendered have "question_block q = Inr block \<and> rendered = [] @ block @ others" by simp
    then show ?thesis by blast
  next
    case False
    with Cons.prems(2) have "q \<in> set ps" by simp
    from Cons.IH [OF ps this] obtain before b after where
      "question_block q = Inr b" and "others = before @ b @ after" by blast
    with rendered have "question_block q = Inr b \<and> rendered = (block @ before) @ b @ after" by simp
    then show ?thesis by blast
  qed
qed

lemma question_block_MCQ:
  "qtype q = MCQ \<Longrightarrow> length (options q) \<le> 26 \<Longrightarrow>
   question_block q =
     Inr (question_header q @ labelled_options (options q)
          @ lit ''\<newline>'' @ concat (replicate 40 (lit ''-'')) @ lit ''\<newline>\<newline>'')"
  by (simp add: question_block_def QuestionType_value_eq option_lines_labelled)


lemma encode_latin1_ok:
  assumes "list_all (\<lambda>c. c < 256) s"
  shows "encode_latin1 s = Inr (map of_nat s)"
proof -
  from assms have all: "takeWhile (\<lambda>c. c < 256) s = s"
    by (simp add: list_all_iff)
  show ?thesis
    unfolding encode_latin1_def Let_def all by (simp only: refl if_True)
qed

lemma encode_latin1_error:
  assumes "encode_latin1 s = Inl e"
  shows "list_ex (\<lambda>c. 256 \<le> c) s"
proof (rule ccontr)
  assume "\<not> list_ex (\<lambda>c. 256 \<le> c) s"
  then have "list_all (\<lambda>c. c < 256) s"
    by (auto simp: list_all_iff list_ex_iff not_le)
  from encode_latin1_ok [OF this] assms show False by simp
qed

lemma length_takeWhile_less:
  assumes "x \<in> set xs" and "\<not> P x"
  shows "length (takeWhile P xs) < length xs"
proof -
  have "length (takeWhile P xs) \<noteq> length xs"
  proof
    assume eq: "length (takeWhile P xs) = length xs"
    have "takeWhile P xs = take (length (takeWhile P xs)) xs"
      by (rule takeWhile_eq_take)
    with eq have "takeWhile P xs = xs" by simp
    with assms show False by (simp add: takeWhile_eq_all_conv)
  qed
  moreover have "length (takeWhile P xs) \<le> length xs"
    by (rule length_takeWhile_le)
  ultimately show ?thesis by simp
qed

lemma encode_latin1_unencodable:
  assumes "x \<in> set s" and "\<not> x < 256"
  shows "encode_latin1 s =
           Inl (PyException
             (encode_error_text s (length (takeWhile (\<lambda>c. c < 256) s))
               (length (takeWhile (\<lambda>c. c < 256) s)
                + length (takeWhile (\<lambda>c. 256 \<le> c)
                            (drop (length (takeWhile (\<lambda>c. c < 256) s)) s)))))"
proof -
  from assms have "length (takeWhile (\<lambda>c. c < 256) s) < length s"
    by (rule length_takeWhile_less)
  then have "length (takeWhile (\<lambda>c. c < 256) s) \<noteq> length s" by simp
  then show ?thesis
    unfolding encode_latin1_def Let_def by (simp only: if_False)
qed


lemma encode_latin1_append:
  assumes suf: "list_all (\<lambda>c. c < 256) suf" and p: "\<not> list_all (\<lambda>c. c < 256) p"
  shows "encode_latin1 (p @ suf) = encode_latin1 p"
proof -
  from p obtain x where x: "x \<in> set p" "\<not> x < 256"
    by (auto simp: list_all_iff)
  then have tw: "takeWhile (\<lambda>c. c < 256) (p @ suf) = takeWhile (\<lambda>c. c < 256) p"
    by (intro takeWhile_append1) auto
  define first where "first = length (takeWhile (\<lambda>c. c < 256) p)"
  have lt: "first < length p"
    unfolding first_def using x by (rule length_takeWhile_less)
  have none: "takeWhile (\<lambda>c. 256 \<le> c) suf = []"
    using suf by (cases suf) (auto simp: not_le)
  have run: "takeWhile (\<lambda>c. 256 \<le> c) (drop first p @ suf)
               = takeWhile (\<lambda>c. 256 \<le> c) (drop first p)"
  proof (cases "\<forall>c\<in>set (drop first p). 256 \<le> c")
    case True
    then have whole: "takeWhile (\<lambda>c. 256 \<le> c) (drop first p) = drop first p"
      by simp
    from True have "takeWhile (\<lambda>c. 256 \<le> c) (drop first p @ suf)
                      = drop first p @ takeWhile (\<lambda>c. 256 \<le> c) suf"
      by (intro takeWhile_append2) auto
    then show ?thesis by (simp only: none whole append_Nil2)
  next
    case False
    then obtain y where "y \<in> set (drop first p)" "\<not> 256 \<le> y" by blast
    then show ?thesis by (intro takeWhile_append1) auto
  qed
  from lt have dr: "drop first (p @ suf) = drop first p @ suf" by simp
  from lt have nth: "(p @ suf) ! first = p ! first"
    by (simp add: nth_append)
  have text_eq: "encode_error_text (p @ suf) first n = encode_error_text p first n" for n
    by (simp add: encode_error_text_def nth)
  from x have xs: "x \<in> set (p @ suf)" by simp
  have "encode_latin1 (p @ suf) =
          Inl (PyException (encode_error_text (p @ suf) first
                 (first + length (takeWhile (\<lambda>c. 256 \<le> c) (drop first (p @ suf))))))"
    using encode_latin1_unencodable [OF xs x(2)] by (simp only: tw first_def)
  also have "\<dots> = Inl (PyException (encode_error_text p first
                 (first + length (takeWhile (\<lambda>c. 256 \<le> c) (drop first p)))))"
    by (simp only: dr run text_eq)
  also have "\<dots> = encode_latin1 p"
    using encode_latin1_unencodable [OF x] by (simp only: first_def)
  finally show ?thesis .
qed

lemma replace_char_latin1:
  "list_all (\<lambda>c. c < 256) (replace_char 32 (lit ''_'') title) = list_all (\<lambda>c. c < 256) title"
  by (induction title) (simp_all add: replace_char_def lit_def)

lemma disposition_latin1:
  "list_all (\<lambda>c. c < 256)
     (lit ''attachment; filename='' @ replace_char 32 (lit ''_'') title @ lit ''.'' @ file_type)
   \<longleftrightarrow> list_all (\<lambda>c. c < 256) title \<and> list_all (\<lambda>c. c < 256) file_type"
proof -
  have "list_all (\<lambda>c. c < 256) (lit ''attachment; filename='')"
    and "list_all (\<lambda>c. c < (256::nat)) (lit ''.'')"
    by (simp_all add: lit_def)
  then show ?thesis by (simp add: replace_char_latin1)
qed


text \<open>
  C7: for a multiple-choice question of an exam with at most 26 options, the renderer
  writes, after the header of the question, one line per option in the order of the
  options, the option at index 0 labelled "A. ", the one at index 1 "B. ", and so on;
  these lines are part of the text of every stream made for the exam.
\<close>

theorem multiple_choice_options_lettered:
  assumes "q \<in> set (questions exam)" and "qtype q = MCQ" and "length (options q) \<le> 26"
  shows "question_block q =
           Inr (question_header q @ labelled_options (options q)
                @ lit ''\<newline>'' @ concat (replicate 40 (lit ''-'')) @ lit ''\<newline>\<newline>'')
         \<and> (\<forall>r. create_file_stream exam file_type = Inr r \<longrightarrow>
               (\<exists>before after.
                  body r = before @ question_header q @ labelled_options (options q) @ after))"
proof (intro conjI allI impI)
  show block: "question_block q =
           Inr (question_header q @ labelled_options (options q)
                @ lit ''\<newline>'' @ concat (replicate 40 (lit ''-'')) @ lit ''\<newline>\<newline>'')"
    using assms(2,3) by (rule question_block_MCQ)
  fix r
  assume "create_file_stream exam file_type = Inr r"
  then obtain blocks where blocks: "question_blocks (questions exam) = Inr blocks"
    and r: "body r = exam_header exam @ blocks @ answer_key_title
                       @ concat (map answer_key_lines (questions exam))"
    by (auto simp: create_file_stream_def Let_def split: sum.splits)
  from question_blocks_member [OF blocks assms(1)] block obtain before after where
    "blocks = before @ (question_header q @ labelled_options (options q)
                @ lit ''\<newline>'' @ concat (replicate 40 (lit ''-'')) @ lit ''\<newline>\<newline>'') @ after"
    by auto
  with r have "body r = (exam_header exam @ before) @ question_header q
                 @ labelled_options (options q)
                 @ (lit ''\<newline>'' @ concat (replicate 40 (lit ''-'')) @ lit ''\<newline>\<newline>'' @ after
                    @ answer_key_title @ concat (map answer_key_lines (questions exam)))"
    by simp
  then show "\<exists>before after.
               body r = before @ question_header q @ labelled_options (options q) @ after"
    by blast
qed

lemma example_blocks: "\<exists>blocks. question_blocks (questions example_exam) = Inr blocks"
  by (simp add: example_exam_def example_mcq_def question_block_def QuestionType_value_eq py_chr_def)

lemma example_stream: "\<exists>r. create_file_stream example_exam (lit ''txt'') = Inr r"
proof -
  have "list_all (\<lambda>c. c < 256) (exam_title example_exam)"
    and "list_all (\<lambda>c. c < (256::nat)) (lit ''txt'')"
    by (simp_all add: example_exam_def lit_def)
  then have "list_all (\<lambda>c. c < 256)
               (lit ''attachment; filename='' @ replace_char 32 (lit ''_'') (exam_title example_exam)
                @ lit ''.'' @ lit ''txt'')"
    by (simp only: disposition_latin1)
  from encode_latin1_ok [OF this] example_blocks show ?thesis
    by (auto simp: create_file_stream_def Let_def)
qed

theorem multiple_choice_options_lettered_witness:
  "example_mcq \<in> set (questions example_exam) \<and> qtype example_mcq = MCQ
   \<and> length (options example_mcq) \<le> 26
   \<and> labelled_options (options example_mcq) = lit ''A. 3\<newline>B. 4\<newline>C. 5\<newline>''
   \<and> (\<exists>r before after.
         create_file_stream example_exam (lit ''txt'') = Inr r
         \<and> body r = before @ question_header example_mcq
                      @ lit ''A. 3\<newline>B. 4\<newline>C. 5\<newline>'' @ after)"
proof -
  have member: "example_mcq \<in> set (questions example_exam)"
    by (simp add: example_exam_def)
  have kind: "qtype example_mcq = MCQ"
    by (simp add: example_mcq_def)
  have few: "length (options example_mcq) \<le> 26"
    by (simp add: example_mcq_def)
  have lines: "labelled_options (options example_mcq) = lit ''A. 3\<newline>B. 4\<newline>C. 5\<newline>''"
    by (simp add: example_mcq_def labelled_options_def option_letters_def enumerate_eq_zip lit_def)
  obtain r where r: "create_file_stream example_exam (lit ''txt'') = Inr r"
    using example_stream by blast
  with multiple_choice_options_lettered [OF member kind few, of "lit ''txt''"] lines
  have "\<exists>before after. body r = before @ question_header example_mcq
                      @ lit ''A. 3\<newline>B. 4\<newline>C. 5\<newline>'' @ after"
    by simp
  with r member kind few lines show ?thesis by blast
qed



text \<open>
  An exam whose title is outside latin-1 is rendered to the buffer, but the construction
  of the response raises on the file name.
\<close>

lemma create_file_stream_title_outside_latin1:
  "create_file_stream (example_exam \<lparr> exam_title := [0x8003, 0x8BD5] \<rparr>) (lit ''txt'')
     = Inl (PyException
         ([39] @ lit ''latin-1'' @ [39]
          @ lit '' codec can't encode characters in position 21-22: ordinal not in range(256)''))"
  by (simp add: create_file_stream_def Let_def example_exam_def example_mcq_def
        question_block_def QuestionType_value_eq py_chr_def encode_latin1_def
        encode_error_text_def replace_char_def str_nat.simps lit_def)


text \<open>
  C9: rendering an exam as "doc" gives the same text as rendering it as "txt"; the two
  responses differ only in the media type (application/msword for doc, text/plain for
  txt) and in the extension of the file name in the Content-Disposition header.
\<close>

theorem doc_same_text_as_txt:
  "case create_file_stream exam (lit ''txt'') of
     Inl e \<Rightarrow> create_file_stream exam (lit ''doc'') = Inl e
   | Inr t \<Rightarrow>
       media_type t = Some (lit ''text/plain'')
       \<and> headers t = [(lit ''Content-Disposition'',
                       lit ''attachment; filename='' @ replace_char 32 (lit ''_'') (exam_title exam)
                       @ lit ''.txt'')]
       \<and> create_file_stream exam (lit ''doc'')
           = Inr (t\<lparr> media_type := Some (lit ''application/msword''),
                     headers := [(lit ''Content-Disposition'',
                                  lit ''attachment; filename=''
                                  @ replace_char 32 (lit ''_'') (exam_title exam)
                                  @ lit ''.doc'')] \<rparr>)
       \<and> (\<exists>d. create_file_stream exam (lit ''doc'') = Inr d \<and> body d = body t)"
proof (cases "question_blocks (questions exam)")
  case (Inl e)
  then show ?thesis by (simp add: create_file_stream_def)
next
  case (Inr blocks)
  define name where
    "name = lit ''attachment; filename='' @ replace_char 32 (lit ''_'') (exam_title exam)"
  have txt_name: "lit ''attachment; filename='' @ replace_char 32 (lit ''_'') (exam_title exam)
               @ lit ''.'' @ lit ''txt'' = name @ lit ''.txt''"
    and doc_name: "lit ''attachment; filename='' @ replace_char 32 (lit ''_'') (exam_title exam)
               @ lit ''.'' @ lit ''doc'' = name @ lit ''.doc''"
    by (simp_all add: name_def lit_def)
  have suffixes: "list_all (\<lambda>c. c < (256::nat)) (lit ''.txt'')"
    "list_all (\<lambda>c. c < (256::nat)) (lit ''.doc'')"
    by (simp_all add: lit_def)
  have types: "map_of mime_map (lit ''txt'') = Some (lit ''text/plain'')"
    "map_of mime_map (lit ''doc'') = Some (lit ''application/msword'')"
    by (simp_all add: mime_map_def lit_eq_iff)
  show ?thesis
  proof (cases "list_all (\<lambda>c. c < 256) name")
    case True
    with suffixes have "list_all (\<lambda>c. c < 256) (name @ lit ''.txt'')"
      and "list_all (\<lambda>c. c < 256) (name @ lit ''.doc'')"
      by simp_all
    then have "encode_latin1 (name @ lit ''.txt'') = Inr (map of_nat (name @ lit ''.txt''))"
      and "encode_latin1 (name @ lit ''.doc'') = Inr (map of_nat (name @ lit ''.doc''))"
      by (simp_all only: encode_latin1_ok)
    with Inr show ?thesis
      by (simp add: create_file_stream_def Let_def txt_name doc_name types name_def)
  next
    case False
    then obtain x where "x \<in> set name" "\<not> x < 256" by (auto simp: list_all_iff)
    from encode_latin1_unencodable [OF this] obtain e where e: "encode_latin1 name = Inl e"
      by blast
    have "encode_latin1 (name @ lit ''.txt'') = encode_latin1 name"
      using suffixes(1) False by (rule encode_latin1_append)
    moreover have "encode_latin1 (name @ lit ''.doc'') = encode_latin1 name"
      using suffixes(2) False by (rule encode_latin1_append)
    ultimately show ?thesis using e Inr
      by (simp add: create_file_stream_def Let_def txt_name doc_name)
  qed
qed

theorem doc_same_text_as_txt_witness:
  "\<exists>t d. create_file_stream example_exam (lit ''txt'') = Inr t
         \<and> create_file_stream example_exam (lit ''doc'') = Inr d
         \<and> body d = body t
         \<and> media_type t = Some (lit ''text/plain'')
         \<and> media_type d = Some (lit ''application/msword'')
         \<and> headers t = [(lit ''Content-Disposition'', lit ''attachment; filename=Mock_Exam.txt'')]
         \<and> headers d = [(lit ''Content-Disposition'', lit ''attachment; filename=Mock_Exam.doc'')]"
proof -
  have name: "replace_char 32 (lit ''_'') (exam_title example_exam) = lit ''Mock_Exam''"
    by (simp add: example_exam_def replace_char_def lit_def)
  obtain t where t: "create_file_stream example_exam (lit ''txt'') = Inr t"
    using example_stream by blast
  with doc_same_text_as_txt [of example_exam] name
  have "media_type t = Some (lit ''text/plain'')
       \<and> headers t = [(lit ''Content-Disposition'', lit ''attachment; filename=Mock_Exam.txt'')]
       \<and> create_file_stream example_exam (lit ''doc'')
           = Inr (t\<lparr> media_type := Some (lit ''application/msword''),
                     headers := [(lit ''Content-Disposition'',
                                  lit ''attachment; filename=Mock_Exam.doc'')] \<rparr>)"
    by (simp add: lit_def)
  with t show ?thesis by simp
qed

section \<open>Properties of the PDF reader\<close>

lemma extract_pages_texts:
  "extract_pages text_pages (map Inr texts) = Inr (text_pages @ filter (\<lambda>t. t \<noteq> []) texts)"
  by (induction texts arbitrary: text_pages) simp_all

lemma read_pdf_pages_texts:
  "read_pdf_pages (map Inr texts) =
     (if texts = [] then Inl (HTTPException 400 (lit ''PDF file has no pages''))
      else if list_all py_isspace (join (lit ''\<newline>'') (filter (\<lambda>t. t \<noteq> []) texts))
      then Inl (HTTPException 400
             (lit ''No text content found in PDF. File might be image-based or encrypted.''))
      else Inr (join (lit ''\<newline>'') (filter (\<lambda>t. t \<noteq> []) texts)))"
  by (simp add: read_pdf_pages_def extract_pages_texts strip_eq_Nil_iff Let_def)

text \<open>
  C4, as the code has it: for a PDF whose pages are all extracted, the reader drops the
  pages with empty text and joins the texts of the others, in page order, with a newline.
  It fails with a 400 when there is no page and when the joined text is empty or
  whitespace only, in particular when no page yields text. For three pages of which only
  the second is empty, and whose joined text is not whitespace only, the result is the
  text of page 1, a newline and the text of page 3.
\<close>

theorem read_pdf_file_joins_pages:
  assumes "pdf_pages env content = Inr (map Inr texts)"
  shows "read_pdf_file env content =
           (if texts = [] then Inl (HTTPException 400 (lit ''PDF file has no pages''))
            else if list_all py_isspace (join (lit ''\<newline>'') (filter (\<lambda>t. t \<noteq> []) texts))
            then Inl (HTTPException 400
                   (lit ''No text content found in PDF. File might be image-based or encrypted.''))
            else Inr (join (lit ''\<newline>'') (filter (\<lambda>t. t \<noteq> []) texts)))
         \<and> (list_all (\<lambda>t. t = []) texts \<longrightarrow> isl (read_pdf_file env content))
         \<and> (\<forall>page1 page3.
               texts = [page1, [], page3] \<and> page1 \<noteq> [] \<and> page3 \<noteq> []
               \<and> \<not> list_all py_isspace (page1 @ lit ''\<newline>'' @ page3)
               \<longrightarrow> read_pdf_file env content = Inr (page1 @ lit ''\<newline>'' @ page3))"
proof -
  have result: "read_pdf_file env content =
           (if texts = [] then Inl (HTTPException 400 (lit ''PDF file has no pages''))
            else if list_all py_isspace (join (lit ''\<newline>'') (filter (\<lambda>t. t \<noteq> []) texts))
            then Inl (HTTPException 400
                   (lit ''No text content found in PDF. File might be image-based or encrypted.''))
            else Inr (join (lit ''\<newline>'') (filter (\<lambda>t. t \<noteq> []) texts)))"
    using assms by (simp add: read_pdf_file_def read_pdf_pages_texts)
  have none: "list_all (\<lambda>t. t = []) texts \<longrightarrow> isl (read_pdf_file env content)"
  proof
    assume "list_all (\<lambda>t. t = []) texts"
    then have "filter (\<lambda>t. t \<noteq> []) texts = []"
      by (simp add: list_all_iff filter_empty_conv)
    then show "isl (read_pdf_file env content)"
      unfolding result by simp
  qed
  have three: "\<forall>page1 page3.
               texts = [page1, [], page3] \<and> page1 \<noteq> [] \<and> page3 \<noteq> []
               \<and> \<not> list_all py_isspace (page1 @ lit ''\<newline>'' @ page3)
               \<longrightarrow> read_pdf_file env content = Inr (page1 @ lit ''\<newline>'' @ page3)"
    unfolding result by auto
  from result none three show ?thesis by blast
qed

theorem read_pdf_file_joins_pages_witness:
  "pdf_pages three_page_env example_pdf = Inr (map Inr [lit ''Intro'', [], lit ''End''])
   \<and> lit ''Intro'' \<noteq> [] \<and> lit ''End'' \<noteq> []
   \<and> \<not> list_all py_isspace (lit ''Intro'' @ lit ''\<newline>'' @ lit ''End'')
   \<and> read_pdf_file three_page_env example_pdf = Inr (lit ''Intro\<newline>End'')"
proof -
  have pages: "pdf_pages three_page_env example_pdf = Inr (map Inr [lit ''Intro'', [], lit ''End''])"
    by (simp add: three_page_env_def)
  have nonempty: "lit ''Intro'' \<noteq> [] \<and> lit ''End'' \<noteq> []"
    by (simp add: lit_def)
  have visible: "\<not> list_all py_isspace (lit ''Intro'' @ lit ''\<newline>'' @ lit ''End'')"
    by (simp add: lit_def py_isspace_def)
  from read_pdf_file_joins_pages [OF pages] nonempty visible
  have "read_pdf_file three_page_env example_pdf = Inr (lit ''Intro'' @ lit ''\<newline>'' @ lit ''End'')"
    by blast
  then have "read_pdf_file three_page_env example_pdf = Inr (lit ''Intro\<newline>End'')"
    by (simp add: lit_def)
  with pages nonempty visible show ?thesis by blast
qed

theorem read_pdf_file_blank_pages_counterexample:
  "pdf_pages blank_pages_env example_pdf = Inr [Inr (lit '' ''), Inr [], Inr (lit '' '')]
   \<and> read_pdf_file blank_pages_env example_pdf
       = Inl (HTTPException 400
           (lit ''No text content found in PDF. File might be image-based or encrypted.''))
   \<and> read_pdf_file blank_pages_env example_pdf \<noteq> Inr (lit '' '' @ lit ''\<newline>'' @ lit '' '')"
  by (simp add: blank_pages_env_def read_pdf_file_def read_pdf_pages_def strip_def
        py_isspace_def lit_def)

section \<open>Properties of the generate endpoint\<close>

lemma generate_exam_handler_500: "\<exists>d. generate_exam_handler e = HTTPException 500 d"
  by (cases e) simp_all

lemmas example_eval =
  generate_exam_def generate_exam_try_def prepare_content_def read_upload_def
  generate_and_validate_def gemini_generate_exam_def build_prompt_def
  example_env_def example_request_def inline_request_def both_request_def
  blank_txt_request_def blank_txt_def docx_request_def pdf_request_def xyz_request_def
  malformed_request_def blank_pages_env_def example_pdf_def
  InputFileType_values_def repr_str_list_def endswith_def ascii_lower_def
  read_file_def read_file_dispatch_def extension_of_def
  read_txt_file_def encodings_def read_docx_file_def read_pdf_file_def read_pdf_pages_def
  strip_def py_isspace_def cp1252_char_def continuation_def
  client_status_def is_client_error_def str_nat.simps lit_def

text \<open>
  C1: an extraction failure is raised by the file service as a 400: for a text file that
  no encoding decodes to visible text, for a DOCX whose joined paragraphs are whitespace
  only, and for a PDF without page text. In the endpoint the handler around
  \<^verbatim>\<open>FileService.read_file\<close> and the handler for \<^verbatim>\<open>Exception\<close> of the \<^verbatim>\<open>try\<close> statement
  catch it, and the three requests are answered with status 500.
\<close>

theorem generate_exam_extraction_failures_are_500:
  "read_file example_env blank_txt = Inl (HTTPException 400 (lit ''Could not decode text file''))
   \<and> generate_exam example_env blank_txt_request
       = ([FileRead],
          Inl (HTTPException 500
            (lit ''An unexpected error occurred while processing the request: 500: Error reading file: 400: Could not decode text file'')))
   \<and> generate_exam example_env docx_request
       = ([FileRead],
          Inl (HTTPException 500
            (lit ''An unexpected error occurred while processing the request: 500: Error reading file: 400: No text content found in DOCX file'')))
   \<and> generate_exam blank_pages_env pdf_request
       = ([FileRead],
          Inl (HTTPException 500
            (lit ''An unexpected error occurred while processing the request: 500: Error reading file: 400: No text content found in PDF. File might be image-based or encrypted.'')))"
  by (simp add: example_eval)

text \<open>
  C2: a request with neither inline text nor a file, and a request with both, raise the
  400 of the presence check before any file is read or any AI call is made. The check is
  inside the \<^verbatim>\<open>try\<close> statement, whose handler for \<^verbatim>\<open>Exception\<close> answers with a 500 that
  quotes the 400.
\<close>

theorem generate_exam_missing_guide_is_500:
  "generate_exam example_env example_request
     = ([], Inl (HTTPException 500
          (lit ''An unexpected error occurred while processing the request: 400: Either 'exam_guide_content' or 'exam_guide_file' must be provided.'')))
   \<and> generate_exam example_env both_request
     = ([], Inl (HTTPException 500
          (lit ''An unexpected error occurred while processing the request: 400: Provide either 'exam_guide_content' OR 'exam_guide_file', not both.'')))"
  by (simp add: example_eval)

text \<open>
  C6: for an upload named notes.xyz the endpoint raises a 400 whose detail lists the
  supported extensions docx, pdf and txt, without reading the file. The handler for
  \<^verbatim>\<open>Exception\<close> answers with a 500 that quotes it.
\<close>

theorem generate_exam_unsupported_extension_is_500:
  "generate_exam example_env xyz_request
     = ([], Inl (HTTPException 500
          (lit ''An unexpected error occurred while processing the request: 400: Unsupported file type. Supported: ['docx', 'pdf', 'txt']'')))"
  by (simp add: example_eval)

text \<open>
  Question types that are not JSON: the answer is a 500, not a client error.
\<close>

theorem generate_exam_malformed_question_types_counterexample:
  "generate_exam example_env malformed_request
     = ([], Inl (HTTPException 500
          (lit ''An unexpected error occurred while processing the request: Expecting value: line 1 column 1 (char 0)'')))
   \<and> \<not> is_client_error (client_status (generate_exam example_env malformed_request))"
  by (simp add: example_eval)

text \<open>
  C5, as the code has it: when the required form fields are not empty, so that the
  function is entered, and \<^verbatim>\<open>json.loads\<close> raises on the \<^verbatim>\<open>question_types\<close> field, the
  endpoint answers with status 500 through the handlers of its \<^verbatim>\<open>try\<close> statement; no file
  is read and no AI call is made.
\<close>

theorem generate_exam_malformed_question_types:
  assumes "required_fields_present req"
    and "json_loads env (question_types req) = Inl e"
  shows "generate_exam env req = ([], Inl (generate_exam_handler e))
         \<and> (\<exists>d. generate_exam_handler e = HTTPException 500 d)
         \<and> client_status (generate_exam env req) = 500"
proof -
  from assms(2) have result: "generate_exam env req = ([], Inl (generate_exam_handler e))"
    by (simp add: generate_exam_def generate_exam_try_def prepare_content_def)
  obtain d where d: "generate_exam_handler e = HTTPException 500 d"
    using generate_exam_handler_500 by blast
  with result have "client_status (generate_exam env req) = 500"
    by (simp add: client_status_def)
  with result d show ?thesis by blast
qed

theorem generate_exam_malformed_question_types_witness:
  "required_fields_present malformed_request
   \<and> json_loads example_env (question_types malformed_request)
     = Inl (PyException (lit ''Expecting value: line 1 column 1 (char 0)''))
   \<and> generate_exam example_env malformed_request
       = ([], Inl (generate_exam_handler
                 (PyException (lit ''Expecting value: line 1 column 1 (char 0)''))))
   \<and> client_status (generate_exam example_env malformed_request) = 500"
proof -
  have present: "required_fields_present malformed_request"
    by (simp add: required_fields_present_def malformed_request_def inline_request_def
          example_request_def lit_def)
  have raised: "json_loads example_env (question_types malformed_request)
          = Inl (PyException (lit ''Expecting value: line 1 column 1 (char 0)''))"
    by (simp add: example_env_def malformed_request_def inline_request_def
          example_request_def lit_def)
  from present raised generate_exam_malformed_question_types [OF present raised]
  show ?thesis by blast
qed

end
